theory Spec2Isabelle
  imports Main "HOL-Library.Sublist"
begin

section \<open>The Google Docs plugin of main.ts\<close>

text \<open>
  The plugin object of main.ts holds two fields, \<open>settings\<close> and
  \<open>authorizationServer\<close>. Its three operations \<open>getAuth\<close>, \<open>openGoogleDoc\<close> and
  \<open>createGoogleDoc\<close> talk to the library markdown-to-google-docs, to the clipboard, to
  the notification popup and to the browser launcher \<open>opn\<close>. None of these is code of
  the plugin, so the library functions are parameters of the model (the record
  \<open>env\<close>), and every call the plugin makes to the outside is appended to a log.
\<close>

subsection \<open>Data\<close>

text \<open>The interface \<open>GoogleDocsSettings\<close>: three strings.\<close>

record GoogleDocsSettings =
  googleDriveFolderId :: string
  credentials :: string
  tokens :: string

definition DEFAULT_SETTINGS :: GoogleDocsSettings where
  "DEFAULT_SETTINGS = \<lparr>googleDriveFolderId = [], credentials = [], tokens = []\<rparr>"

text \<open>
  What an operation can throw: the \<open>SyntaxError\<close> of \<open>JSON.parse\<close>, or whatever a
  library call throws or rejects with (kept opaque, with a label).
\<close>

datatype exn = SyntaxError | LibraryError string

text \<open>
  The log. \<open>'c\<close> is the type of the client object that \<open>getClient\<close> builds, \<open>'j\<close> the
  type of parsed JSON values. A credential handed to the library is a \<open>'c option\<close>:
  \<open>None\<close> is JavaScript's \<open>undefined\<close>. \<open>SetTimeoutOpn url ms\<close> is
  \<open>setTimeout(() => opn(url), ms)\<close>, a browser launch scheduled for later;
  \<open>Opn url\<close> is an immediate \<open>opn(url)\<close>; \<open>SaveData s\<close> is \<open>this.saveData(s)\<close>.
\<close>

datatype ('c, 'j) event =
    Notice string
  | ClipboardWrite string
  | SetTimeoutOpn string nat
  | Opn string
  | SaveData GoogleDocsSettings
  | HasValidTokenCall 'c 'j
  | GetNewTokenCall 'c
  | FindOrCreateDocCall string string "'c option"
  | HasOpenCommentsCall "'c option" string
  | UpdateHtmlCall string string "'c option" bool

text \<open>
  The library and the two JSON built-ins. \<open>'h\<close> is the type of the local server object
  that \<open>getNewToken\<close> starts, \<open>'w\<close> the state of everything outside the plugin (the
  remote store, the clock, the user in front of the browser). An awaited call reads and
  changes \<open>'w\<close> and either resolves (\<open>Inr\<close>) or rejects (\<open>Inl\<close>). The third component
  of \<open>getNewToken\<close>'s result is \<open>tokenPromise\<close>: awaiting it is applying it to the
  outside state of that later moment. \<open>getClient\<close> is called without \<open>await\<close>: it
  returns or throws on the spot. \<open>JSON.stringify\<close> is taken to return a string for
  every token set. The clipboard, the notices, \<open>opn\<close> and \<open>saveData\<close> are called
  without \<open>await\<close> and their results are dropped, so they only show in the log.
\<close>

type_synonym ('a, 'w) awaited = "'w \<Rightarrow> (exn + 'a) \<times> 'w"

record ('c, 'j, 'h, 'w) env =
  getClient :: "string \<Rightarrow> exn + 'c"
  json_grammar :: "string \<Rightarrow> 'j option"
  JSON_stringify :: "'j \<Rightarrow> string"
  hasValidToken :: "'c \<Rightarrow> 'j \<Rightarrow> (bool, 'w) awaited"
  getNewToken :: "'c \<Rightarrow> ('h \<times> string \<times> ('j, 'w) awaited, 'w) awaited"
  findOrCreateDoc :: "string \<Rightarrow> string \<Rightarrow> 'c option \<Rightarrow> (string, 'w) awaited"
  hasOpenComments :: "'c option \<Rightarrow> string \<Rightarrow> (bool, 'w) awaited"
  updateHtml :: "string \<Rightarrow> string \<Rightarrow> 'c option \<Rightarrow> bool \<Rightarrow> (unit, 'w) awaited"

text \<open>
  \<open>JSON.parse\<close> throws \<open>SyntaxError\<close> on a text that is not one JSON value. The empty
  text and a text of white space only are never a JSON value; every other text is
  judged by \<open>json_grammar\<close>.
\<close>

definition json_whitespace :: "char \<Rightarrow> bool" where
  "json_whitespace c \<longleftrightarrow> c = CHR '' '' \<or> c = CHR 0x09 \<or> c = CHR 0x0A \<or> c = CHR 0x0D"

definition JSON_parse :: "('c, 'j, 'h, 'w) env \<Rightarrow> string \<Rightarrow> exn + 'j" where
  "JSON_parse E text =
     (if list_all json_whitespace text then Inl SyntaxError
      else case json_grammar E text of None \<Rightarrow> Inl SyntaxError | Some v \<Rightarrow> Inr v)"

text \<open>
  The state: the plugin's two fields (\<open>authorizationServer\<close> is \<open>null\<close> when \<open>None\<close>),
  the outside, and the log.
\<close>

record ('c, 'j, 'h, 'w) state =
  settings :: GoogleDocsSettings
  authorizationServer :: "'h option"
  outside :: 'w
  effects :: "('c, 'j) event list"

definition emit :: "('c, 'j) event \<Rightarrow> ('c, 'j, 'h, 'w) state \<Rightarrow> ('c, 'j, 'h, 'w) state" where
  "emit e st = st\<lparr>effects := effects st @ [e]\<rparr>"

subsection \<open>The operations\<close>

definition googleDocsUrl :: "string \<Rightarrow> string" where
  "googleDocsUrl documentId = ''https://docs.google.com/document/d/'' @ documentId"

definition already_authenticating :: string where
  "already_authenticating = ''Already authenticating, complete authorization.''"

definition authenticate_to_continue :: string where
  "authenticate_to_continue =
     ''Authenticate to continue. A browser window will open and authorization url is copied to clipboard.''"

definition authentication_complete :: string where
  "authentication_complete = ''Authentication complete!''"

definition opening_google_doc :: string where
  "opening_google_doc = ''Opening Google Doc...''"

definition has_open_comments :: string where
  "has_open_comments =
     ''Document has open comments. Please resolve them before pushing content.''"

definition document_updated :: string where
  "document_updated = ''Document updated.''"

text \<open>\<open>saveSettings\<close>: hands the settings record to \<open>saveData\<close>.\<close>

definition saveSettings :: "('c, 'j, 'h, 'w) state \<Rightarrow> ('c, 'j, 'h, 'w) state" where
  "saveSettings st = emit (SaveData (settings st)) st"

text \<open>
  \<open>getAuth\<close> in two parts, cut at \<open>await tokenPromise\<close>, the one place where the
  function waits for the user. \<open>getAuth_begin\<close> runs up to that line: it is either
  finished (\<open>Done\<close>: a value returned, or an exception) or suspended on the promise
  (\<open>Awaiting\<close>) with the guard already set. \<open>getAuth_resume\<close> is the rest.
\<close>

datatype ('c, 'j, 'w) auth_step =
    Done "exn + 'c option"
  | Awaiting 'c "('j, 'w) awaited"

definition getAuth_begin ::
  "('c, 'j, 'h, 'w) env \<Rightarrow> ('c, 'j, 'h, 'w) state \<Rightarrow> ('c, 'j, 'w) auth_step \<times> ('c, 'j, 'h, 'w) state" where
  "getAuth_begin E st =
     (case authorizationServer st of
        Some _ \<Rightarrow> (Done (Inr None), emit (Notice already_authenticating) st)
      | None \<Rightarrow>
         (case getClient E (credentials (settings st)) of
            Inl e \<Rightarrow> (Done (Inl e), st)
          | Inr auth \<Rightarrow>
             (case JSON_parse E (tokens (settings st)) of
                Inl e \<Rightarrow> (Done (Inl e), st)
              | Inr parsed \<Rightarrow>
                 (case hasValidToken E auth parsed (outside st) of
                    (Inl e, w) \<Rightarrow>
                      (Done (Inl e), emit (HasValidTokenCall auth parsed) (st\<lparr>outside := w\<rparr>))
                  | (Inr isValid, w) \<Rightarrow>
                      (let st1 = emit (HasValidTokenCall auth parsed) (st\<lparr>outside := w\<rparr>) in
                       if \<not> isValid then
                         (case getNewToken E auth (outside st1) of
                            (Inl e, w') \<Rightarrow>
                              (Done (Inl e), emit (GetNewTokenCall auth) (st1\<lparr>outside := w'\<rparr>))
                          | (Inr (server, authorizeUrl, tokenPromise), w') \<Rightarrow>
                              (Awaiting auth tokenPromise,
                               (emit (SetTimeoutOpn authorizeUrl 2000)
                                 (emit (ClipboardWrite authorizeUrl)
                                   (emit (Notice authenticate_to_continue)
                                     (emit (GetNewTokenCall auth) (st1\<lparr>outside := w'\<rparr>)))))
                               \<lparr>authorizationServer := Some server\<rparr>))
                       else (Done (Inr (Some auth)), st1))))))"

definition getAuth_resume ::
  "('c, 'j, 'h, 'w) env \<Rightarrow> 'c \<Rightarrow> ('j, 'w) awaited \<Rightarrow> ('c, 'j, 'h, 'w) state
     \<Rightarrow> (exn + 'c option) \<times> ('c, 'j, 'h, 'w) state" where
  "getAuth_resume E auth tokenPromise st =
     (case tokenPromise (outside st) of
        (Inl e, w) \<Rightarrow> (Inl e, st\<lparr>outside := w\<rparr>)
      | (Inr toks, w) \<Rightarrow>
          (Inr (Some auth),
           emit (Notice authentication_complete)
             (saveSettings
               (st\<lparr>outside := w,
                   settings := (settings st)\<lparr>tokens := JSON_stringify E toks\<rparr>\<rparr>))))"

definition getAuth ::
  "('c, 'j, 'h, 'w) env \<Rightarrow> ('c, 'j, 'h, 'w) state \<Rightarrow> (exn + 'c option) \<times> ('c, 'j, 'h, 'w) state" where
  "getAuth E st =
     (case getAuth_begin E st of
        (Done r, st') \<Rightarrow> (r, st')
      | (Awaiting auth tokenPromise, st') \<Rightarrow> getAuth_resume E auth tokenPromise st')"

text \<open>\<open>openGoogleDoc\<close>. The value of \<open>getAuth\<close> is used as it comes, \<open>undefined\<close> included.\<close>

definition openGoogleDoc ::
  "('c, 'j, 'h, 'w) env \<Rightarrow> string \<Rightarrow> string \<Rightarrow> ('c, 'j, 'h, 'w) state
     \<Rightarrow> (exn + unit) \<times> ('c, 'j, 'h, 'w) state" where
  "openGoogleDoc E title markdownContents st =
     (case getAuth E st of
        (Inl e, st1) \<Rightarrow> (Inl e, st1)
      | (Inr auth, st1) \<Rightarrow>
          (let st2 = emit (Notice opening_google_doc) st1;
               folder = googleDriveFolderId (settings st2) in
           case findOrCreateDoc E title folder auth (outside st2) of
             (Inl e, w) \<Rightarrow> (Inl e, emit (FindOrCreateDocCall title folder auth) (st2\<lparr>outside := w\<rparr>))
           | (Inr documentId, w) \<Rightarrow>
               (Inr (),
                emit (Opn (googleDocsUrl documentId))
                  (emit (FindOrCreateDocCall title folder auth) (st2\<lparr>outside := w\<rparr>)))))"

text \<open>\<open>createGoogleDoc\<close>, the push.\<close>

definition createGoogleDoc ::
  "('c, 'j, 'h, 'w) env \<Rightarrow> string \<Rightarrow> string \<Rightarrow> ('c, 'j, 'h, 'w) state
     \<Rightarrow> (exn + unit) \<times> ('c, 'j, 'h, 'w) state" where
  "createGoogleDoc E title content st =
     (case getAuth E st of
        (Inl e, st1) \<Rightarrow> (Inl e, st1)
      | (Inr auth, st1) \<Rightarrow>
          (let folder = googleDriveFolderId (settings st1) in
           case findOrCreateDoc E title folder auth (outside st1) of
             (Inl e, w) \<Rightarrow> (Inl e, emit (FindOrCreateDocCall title folder auth) (st1\<lparr>outside := w\<rparr>))
           | (Inr documentId, w) \<Rightarrow>
               (let st2 = emit (FindOrCreateDocCall title folder auth) (st1\<lparr>outside := w\<rparr>) in
                case hasOpenComments E auth documentId (outside st2) of
                  (Inl e, w') \<Rightarrow>
                    (Inl e, emit (HasOpenCommentsCall auth documentId) (st2\<lparr>outside := w'\<rparr>))
                | (Inr openComments, w') \<Rightarrow>
                    (let st3 = emit (HasOpenCommentsCall auth documentId) (st2\<lparr>outside := w'\<rparr>) in
                     if openComments then
                       (Inr (),
                        emit (ClipboardWrite (googleDocsUrl documentId))
                          (emit (Notice has_open_comments) st3))
                     else
                       (case updateHtml E documentId content auth True (outside st3) of
                          (Inl e, w'') \<Rightarrow>
                            (Inl e,
                             emit (UpdateHtmlCall documentId content auth True) (st3\<lparr>outside := w''\<rparr>))
                        | (Inr _, w'') \<Rightarrow>
                            (Inr (),
                             emit (Notice document_updated)
                               (emit (ClipboardWrite (googleDocsUrl documentId))
                                 (emit (UpdateHtmlCall documentId content auth True)
                                   (st3\<lparr>outside := w''\<rparr>)))))))))"

subsection \<open>The earlier variant of the push\<close>

text \<open>
  The second source file is an earlier main.ts. There \<open>getAuth\<close> does not exist yet:
  \<open>createGoogleDoc\<close> takes the credentials and the folder as arguments and carries the
  same authorization code inline, so the guard's \<open>return\<close> ends the whole push. The
  conflict check is commented out: every push that gets that far writes.
\<close>

definition createGoogleDoc_inline ::
  "('c, 'j, 'h, 'w) env \<Rightarrow> string \<Rightarrow> string \<Rightarrow> string \<Rightarrow> string \<Rightarrow> ('c, 'j, 'h, 'w) state
     \<Rightarrow> (exn + unit) \<times> ('c, 'j, 'h, 'w) state" where
  "createGoogleDoc_inline E creds folderId title content st =
     (case authorizationServer st of
        Some _ \<Rightarrow> (Inr (), emit (Notice already_authenticating) st)
      | None \<Rightarrow>
         (case getClient E creds of
            Inl e \<Rightarrow> (Inl e, st)
          | Inr auth \<Rightarrow>
             (case JSON_parse E (tokens (settings st)) of
                Inl e \<Rightarrow> (Inl e, st)
              | Inr parsed \<Rightarrow>
                 (case hasValidToken E auth parsed (outside st) of
                    (Inl e, w) \<Rightarrow>
                      (Inl e, emit (HasValidTokenCall auth parsed) (st\<lparr>outside := w\<rparr>))
                  | (Inr isValid, w) \<Rightarrow>
                      (let st1 = emit (HasValidTokenCall auth parsed) (st\<lparr>outside := w\<rparr>);
                           authorized =
                             (if \<not> isValid then
                                (case getNewToken E auth (outside st1) of
                                   (Inl e, w') \<Rightarrow>
                                     (Inl e, emit (GetNewTokenCall auth) (st1\<lparr>outside := w'\<rparr>))
                                 | (Inr (server, authorizeUrl, tokenPromise), w') \<Rightarrow>
                                     getAuth_resume E auth tokenPromise
                                       ((emit (SetTimeoutOpn authorizeUrl 2000)
                                          (emit (ClipboardWrite authorizeUrl)
                                            (emit (Notice authenticate_to_continue)
                                              (emit (GetNewTokenCall auth) (st1\<lparr>outside := w'\<rparr>)))))
                                        \<lparr>authorizationServer := Some server\<rparr>))
                              else (Inr (Some auth), st1))
                       in case authorized of
                            (Inl e, st2) \<Rightarrow> (Inl e, st2)
                          | (Inr _, st2) \<Rightarrow>
                              (case findOrCreateDoc E title folderId (Some auth) (outside st2) of
                                 (Inl e, w2) \<Rightarrow>
                                   (Inl e,
                                    emit (FindOrCreateDocCall title folderId (Some auth))
                                      (st2\<lparr>outside := w2\<rparr>))
                               | (Inr documentId, w2) \<Rightarrow>
                                   (let st3 = emit (FindOrCreateDocCall title folderId (Some auth))
                                                (st2\<lparr>outside := w2\<rparr>) in
                                    case updateHtml E documentId content (Some auth) True (outside st3) of
                                      (Inl e, w3) \<Rightarrow>
                                        (Inl e,
                                         emit (UpdateHtmlCall documentId content (Some auth) True)
                                           (st3\<lparr>outside := w3\<rparr>))
                                    | (Inr _, w3) \<Rightarrow>
                                        (Inr (),
                                         emit (Notice document_updated)
                                           (emit (ClipboardWrite (googleDocsUrl documentId))
                                             (emit (UpdateHtmlCall documentId content (Some auth) True)
                                               (st3\<lparr>outside := w3\<rparr>)))))))))))"

subsection \<open>Reading the log\<close>

text \<open>What an operation appended to the log between two states.\<close>

definition new_effects ::
  "('c, 'j, 'h, 'w) state \<Rightarrow> ('c, 'j, 'h, 'w) state \<Rightarrow> ('c, 'j) event list" where
  "new_effects st st' = drop (length (effects st)) (effects st')"

text \<open>
  Kinds of events. A browser launch is an \<open>opn\<close>, immediate or scheduled; a listener
  is started by \<open>getNewToken\<close> (and by nothing else).
\<close>

fun is_launch :: "('c, 'j) event \<Rightarrow> bool" where
  "is_launch (Opn _) = True"
| "is_launch (SetTimeoutOpn _ _) = True"
| "is_launch _ = False"

fun is_clipboard :: "('c, 'j) event \<Rightarrow> bool" where
  "is_clipboard (ClipboardWrite _) = True"
| "is_clipboard _ = False"

fun is_notice :: "('c, 'j) event \<Rightarrow> bool" where
  "is_notice (Notice _) = True"
| "is_notice _ = False"

fun is_save :: "('c, 'j) event \<Rightarrow> bool" where
  "is_save (SaveData _) = True"
| "is_save _ = False"

fun is_new_token_request :: "('c, 'j) event \<Rightarrow> bool" where
  "is_new_token_request (GetNewTokenCall _) = True"
| "is_new_token_request _ = False"

fun is_conflict_check :: "('c, 'j) event \<Rightarrow> bool" where
  "is_conflict_check (HasOpenCommentsCall _ _) = True"
| "is_conflict_check _ = False"

fun is_update :: "('c, 'j) event \<Rightarrow> bool" where
  "is_update (UpdateHtmlCall _ _ _ _) = True"
| "is_update _ = False"

text \<open>The events \<open>getAuth\<close> can produce: everything but document calls and \<open>opn\<close> now.\<close>

fun is_auth_effect :: "('c, 'j) event \<Rightarrow> bool" where
  "is_auth_effect (Opn _) = False"
| "is_auth_effect (FindOrCreateDocCall _ _ _) = False"
| "is_auth_effect (HasOpenCommentsCall _ _) = False"
| "is_auth_effect (UpdateHtmlCall _ _ _ _) = False"
| "is_auth_effect _ = True"

subsection \<open>Notions used in the statements\<close>

text \<open>What the clipboard holds after a log: the text of the last write.\<close>

definition clipboard :: "('c, 'j) event list \<Rightarrow> string option" where
  "clipboard evs = foldl (\<lambda>c e. case e of ClipboardWrite s \<Rightarrow> Some s | _ \<Rightarrow> c) None evs"

text \<open>
  The contract of the remote store that the idempotence of the push assumes. The store
  is seen through two observations: \<open>docOf w title folder\<close>, the id of the document
  with that title in that folder, if it was created, and \<open>bodyOf w d\<close>, the body of
  document \<open>d\<close>. A created document keeps its id through every library call
  (\<open>keeps_ids\<close>); \<open>findOrCreateDoc\<close> answers with the id of the document of that title
  and folder; \<open>updateHtml\<close> with \<open>wipe\<close> leaves the given content as the body. Together
  the first two say that the same title and folder give the same id once created.
\<close>

definition keeps_ids :: "('w \<Rightarrow> string \<Rightarrow> string \<Rightarrow> string option) \<Rightarrow> 'w \<Rightarrow> 'w \<Rightarrow> bool" where
  "keeps_ids docOf w w' \<longleftrightarrow> (\<forall>t f d. docOf w t f = Some d \<longrightarrow> docOf w' t f = Some d)"

definition remote_contract ::
  "('c, 'j, 'h, 'w) env \<Rightarrow> ('w \<Rightarrow> string \<Rightarrow> string \<Rightarrow> string option)
     \<Rightarrow> ('w \<Rightarrow> string \<Rightarrow> string option) \<Rightarrow> bool" where
  "remote_contract E docOf bodyOf \<longleftrightarrow>
     (\<forall>c j w. keeps_ids docOf w (snd (hasValidToken E c j w))) \<and>
     (\<forall>c w. keeps_ids docOf w (snd (getNewToken E c w))) \<and>
     (\<forall>c w h u p w1. fst (getNewToken E c w) = Inr (h, u, p) \<longrightarrow> keeps_ids docOf w1 (snd (p w1))) \<and>
     (\<forall>t f a w. keeps_ids docOf w (snd (findOrCreateDoc E t f a w))) \<and>
     (\<forall>t f a w d. fst (findOrCreateDoc E t f a w) = Inr d \<longrightarrow>
        docOf (snd (findOrCreateDoc E t f a w)) t f = Some d) \<and>
     (\<forall>a d w. keeps_ids docOf w (snd (hasOpenComments E a d w))) \<and>
     (\<forall>d c a w. keeps_ids docOf w (snd (updateHtml E d c a True w))) \<and>
     (\<forall>d c a w. fst (updateHtml E d c a True w) = Inr () \<longrightarrow>
        bodyOf (snd (updateHtml E d c a True w)) d = Some c)"

text \<open>
  The no-conflict case of a push from a state: the conflict check that this push makes
  (on the document it resolves, with the credential it got) does not answer true.
\<close>

definition conflict_free ::
  "('c, 'j, 'h, 'w) env \<Rightarrow> string \<Rightarrow> ('c, 'j, 'h, 'w) state \<Rightarrow> bool" where
  "conflict_free E title st \<longleftrightarrow>
     (\<forall>auth st1 d w.
        getAuth E st = (Inr auth, st1) \<longrightarrow>
        findOrCreateDoc E title (googleDriveFolderId (settings st1)) auth (outside st1) = (Inr d, w) \<longrightarrow>
        fst (hasOpenComments E auth d w) \<noteq> Inr True)"

text \<open>
  What an operation that took \<open>st\<close> to \<open>st'\<close> may have done to the settings: the folder
  id and the credentials are as before; and either the whole record is as before and
  nothing was handed to \<open>saveData\<close>, or \<open>getAuth\<close> was suspended on a token promise that
  then resolved with \<open>toks\<close>, the tokens field holds their serialization, and the record
  was handed to \<open>saveData\<close> once.
\<close>

definition settings_frame ::
  "('c, 'j, 'h, 'w) env \<Rightarrow> ('c, 'j, 'h, 'w) state \<Rightarrow> ('c, 'j, 'h, 'w) state \<Rightarrow> bool" where
  "settings_frame E st st' \<longleftrightarrow>
     googleDriveFolderId (settings st') = googleDriveFolderId (settings st) \<and>
     credentials (settings st') = credentials (settings st) \<and>
     (settings st' = settings st \<and> filter is_save (new_effects st st') = [] \<or>
      (\<exists>auth tokenPromise st0 toks w.
         getAuth_begin E st = (Awaiting auth tokenPromise, st0) \<and>
         tokenPromise (outside st0) = (Inr toks, w) \<and>
         settings st' = (settings st)\<lparr>tokens := JSON_stringify E toks\<rparr> \<and>
         filter is_save (new_effects st st') = [SaveData (settings st')]))"

subsection \<open>A concrete environment\<close>

text \<open>
  A small library to run the operations on: the client is named by its credentials text,
  a JSON value by its text (the grammar knows numbers and the empty object only), the
  server by its port. The remote store keeps an association list from (title, folder)
  to document id, one from document id to body, and the ids of the documents with open
  comments. Tokens are valid when they are \<open>sample_token\<close>, and that is the token set
  an authorization yields.
\<close>

record remote_store =
  documents :: "((string \<times> string) \<times> string) list"
  bodies :: "(string \<times> string) list"
  commented :: "string list"

definition sample_token :: string where
  "sample_token = ''4102444800''"

definition sample_authorizeUrl :: string where
  "sample_authorizeUrl = ''https://accounts.google.com/o/oauth2/v2/auth''"

definition sample_tokenPromise :: "(string, remote_store) awaited" where
  "sample_tokenPromise w = (Inr sample_token, w)"

definition sample_env :: "(string, string, nat, remote_store) env" where
  "sample_env =
     \<lparr>getClient = (\<lambda>c. if c = [] then Inl (LibraryError ''credentials'') else Inr c),
      json_grammar = (\<lambda>t. if t = ''{}'' \<or> list_all (\<lambda>c. c \<in> set ''0123456789'') t then Some t else None),
      JSON_stringify = (\<lambda>j. j),
      hasValidToken = (\<lambda>c j w. (Inr (j = sample_token), w)),
      getNewToken = (\<lambda>c w. (Inr (8080, sample_authorizeUrl, sample_tokenPromise), w)),
      findOrCreateDoc = (\<lambda>title folder a w.
         case map_of (documents w) (title, folder) of
           Some d \<Rightarrow> (Inr d, w)
         | None \<Rightarrow>
             (Inr (''doc-'' @ title),
              w\<lparr>documents := ((title, folder), ''doc-'' @ title) # documents w,
                bodies := (''doc-'' @ title, []) # bodies w\<rparr>)),
      hasOpenComments = (\<lambda>a d w. (Inr (d \<in> set (commented w)), w)),
      updateHtml = (\<lambda>d c a wipe w.
         (Inr (), w\<lparr>bodies := (d, c) # filter (\<lambda>p. fst p \<noteq> d) (bodies w)\<rparr>))\<rparr>"

definition empty_store :: remote_store where
  "empty_store = \<lparr>documents = [], bodies = [], commented = []\<rparr>"

text \<open>A store where the document ``Notes'' exists and has open comments.\<close>

definition commented_store :: remote_store where
  "commented_store =
     \<lparr>documents = [((''Notes'', []), ''doc-Notes'')],
      bodies = [(''doc-Notes'', ''v1'')],
      commented = [''doc-Notes'']\<rparr>"

text \<open>
  A plugin whose credentials are set, with the given tokens text and guard, and an
  empty log.
\<close>

definition sample_state ::
  "string \<Rightarrow> nat option \<Rightarrow> remote_store \<Rightarrow> (string, string, nat, remote_store) state" where
  "sample_state toks guard w =
     \<lparr>settings = DEFAULT_SETTINGS\<lparr>credentials := ''app'', tokens := toks\<rparr>,
      authorizationServer = guard, outside = w, effects = []\<rparr>"

lemmas sample_defs =
  sample_env_def sample_state_def empty_store_def commented_store_def sample_token_def
  sample_tokenPromise_def sample_authorizeUrl_def DEFAULT_SETTINGS_def

lemmas message_defs =
  already_authenticating_def authenticate_to_continue_def authentication_complete_def
  opening_google_doc_def has_open_comments_def document_updated_def

lemmas getAuth_defs =
  getAuth_def getAuth_begin_def getAuth_resume_def JSON_parse_def json_whitespace_def
  saveSettings_def emit_def

lemmas splits = option.splits sum.splits prod.splits if_splits auth_step.splits

section \<open>What the operations log and keep\<close>

text \<open>\<open>getAuth\<close> only appends to the log, and only events of its own kinds.\<close>

lemma getAuth_log:
  "\<exists>evs. effects (snd (getAuth E st)) = effects st @ evs \<and> list_all is_auth_effect evs"
  by (auto simp: getAuth_defs Let_def split: splits)

lemma auth_effect_kinds:
  "list_all is_auth_effect evs \<Longrightarrow> \<not> list_ex is_update evs \<and> \<not> list_ex is_conflict_check evs"
  by (induction evs) (auto elim: is_auth_effect.elims)

lemma getAuth_frame:
  "googleDriveFolderId (settings (snd (getAuth E st))) = googleDriveFolderId (settings st) \<and>
   credentials (settings (snd (getAuth E st))) = credentials (settings st)"
  by (auto simp: getAuth_defs Let_def split: splits)

lemma getAuth_begin_frame:
  "settings (snd (getAuth_begin E st)) = settings st \<and>
   (\<exists>evs. effects (snd (getAuth_begin E st)) = effects st @ evs \<and> filter is_save evs = [])"
  by (auto simp: getAuth_begin_def emit_def Let_def split: splits)

lemma getAuth_settings_frame: "settings_frame E st (snd (getAuth E st))"
proof -
  obtain step st0 where b: "getAuth_begin E st = (step, st0)"
    by (cases "getAuth_begin E st")
  obtain evs where f: "settings st0 = settings st" "effects st0 = effects st @ evs"
    "filter is_save evs = []"
    using getAuth_begin_frame [of E st] b by auto
  show ?thesis
  proof (cases step)
    case (Done r)
    with b f show ?thesis
      by (simp add: getAuth_def settings_frame_def new_effects_def)
  next
    case (Awaiting auth tokenPromise)
    obtain r w where p: "tokenPromise (outside st0) = (r, w)"
      by (cases "tokenPromise (outside st0)")
    show ?thesis
    proof (cases r)
      case (Inl e)
      with b f Awaiting p show ?thesis
        by (simp add: getAuth_def getAuth_resume_def settings_frame_def new_effects_def)
    next
      case (Inr toks)
      have g: "getAuth E st =
          (Inr (Some auth),
           st0\<lparr>outside := w,
               settings := (settings st)\<lparr>tokens := JSON_stringify E toks\<rparr>,
               effects := effects st @ evs @
                 [SaveData ((settings st)\<lparr>tokens := JSON_stringify E toks\<rparr>),
                  Notice authentication_complete]\<rparr>)"
        using b f Awaiting p Inr
        by (simp add: getAuth_def getAuth_resume_def saveSettings_def emit_def)
      have "\<exists>auth tokenPromise st0 toks w.
         getAuth_begin E st = (Awaiting auth tokenPromise, st0) \<and>
         tokenPromise (outside st0) = (Inr toks, w) \<and>
         settings (snd (getAuth E st)) = (settings st)\<lparr>tokens := JSON_stringify E toks\<rparr> \<and>
         filter is_save (new_effects st (snd (getAuth E st)))
           = [SaveData (settings (snd (getAuth E st)))]"
        using b Awaiting p Inr f(3) by (simp add: g new_effects_def)
      then show ?thesis
        by (simp add: settings_frame_def g)
    qed
  qed
qed

text \<open>After \<open>getAuth\<close>, the two document operations leave the settings alone.\<close>

lemma openGoogleDoc_after_getAuth:
  "\<exists>evs. settings (snd (openGoogleDoc E title content st)) = settings (snd (getAuth E st)) \<and>
     effects (snd (openGoogleDoc E title content st)) = effects (snd (getAuth E st)) @ evs \<and>
     \<not> list_ex is_save evs \<and> \<not> list_ex is_update evs \<and> \<not> list_ex is_conflict_check evs"
  by (auto simp: openGoogleDoc_def emit_def Let_def split: splits)

lemma createGoogleDoc_after_getAuth:
  "\<exists>evs. settings (snd (createGoogleDoc E title content st)) = settings (snd (getAuth E st)) \<and>
     effects (snd (createGoogleDoc E title content st)) = effects (snd (getAuth E st)) @ evs \<and>
     \<not> list_ex is_save evs"
  by (auto simp: createGoogleDoc_def emit_def Let_def split: splits)

lemma settings_frame_extend:
  assumes "settings_frame E st st1"
    and "settings st' = settings st1"
    and "effects st' = effects st1 @ evs"
    and "\<not> list_ex is_save evs"
    and "\<exists>evs0. effects st1 = effects st @ evs0"
  shows "settings_frame E st st'"
proof -
  have "filter is_save evs = []"
    using assms(4) by (induction evs) auto
  then have "filter is_save (new_effects st st') = filter is_save (new_effects st st1)"
    using assms(3,5) by (auto simp: new_effects_def)
  then show ?thesis
    using assms(1,2) by (simp add: settings_frame_def)
qed

text \<open>The steps of a push that returned normally.\<close>

lemma createGoogleDoc_returns:
  assumes "createGoogleDoc E title content st = (Inr u, st')"
  shows "\<exists>auth st1 d w1 b w2.
    getAuth E st = (Inr auth, st1) \<and>
    findOrCreateDoc E title (googleDriveFolderId (settings st1)) auth (outside st1) = (Inr d, w1) \<and>
    hasOpenComments E auth d w1 = (Inr b, w2) \<and>
    (if b then st' = st1\<lparr>outside := w2, effects := effects st1 @
        [FindOrCreateDocCall title (googleDriveFolderId (settings st1)) auth,
         HasOpenCommentsCall auth d, Notice has_open_comments,
         ClipboardWrite (googleDocsUrl d)]\<rparr>
     else (\<exists>w3. updateHtml E d content auth True w2 = (Inr (), w3) \<and>
       st' = st1\<lparr>outside := w3, effects := effects st1 @
        [FindOrCreateDocCall title (googleDriveFolderId (settings st1)) auth,
         HasOpenCommentsCall auth d, UpdateHtmlCall d content auth True,
         ClipboardWrite (googleDocsUrl d), Notice document_updated]\<rparr>))"
  using assms
  by (auto simp: createGoogleDoc_def emit_def Let_def split: splits)

text \<open>Under the contract, \<open>getAuth\<close> keeps the ids of the created documents.\<close>

lemma keeps_ids_refl: "keeps_ids docOf w w"
  by (simp add: keeps_ids_def)

lemma keeps_ids_trans: "keeps_ids docOf w w1 \<Longrightarrow> keeps_ids docOf w1 w2 \<Longrightarrow> keeps_ids docOf w w2"
  by (simp add: keeps_ids_def)

lemma getAuth_keeps_ids:
  assumes "remote_contract E docOf bodyOf"
  shows "keeps_ids docOf (outside st) (outside (snd (getAuth E st)))"
proof -
  have v: "\<And>c j w. keeps_ids docOf w (snd (hasValidToken E c j w))"
    and n: "\<And>c w. keeps_ids docOf w (snd (getNewToken E c w))"
    and p: "\<And>c w h u p w1. fst (getNewToken E c w) = Inr (h, u, p) \<Longrightarrow> keeps_ids docOf w1 (snd (p w1))"
    using assms by (auto simp: remote_contract_def)
  show ?thesis
  proof (cases "authorizationServer st")
    case (Some h)
    then show ?thesis by (simp add: getAuth_defs keeps_ids_refl)
  next
    case None
    show ?thesis
    proof (cases "getClient E (credentials (settings st))")
      case (Inl e)
      with None show ?thesis by (simp add: getAuth_defs keeps_ids_refl)
    next
      case (Inr auth)
      show ?thesis
      proof (cases "JSON_parse E (tokens (settings st))")
        case (Inl e)
        with None Inr show ?thesis by (simp add: getAuth_def getAuth_begin_def keeps_ids_refl)
      next
        case parsed: (Inr tok)
        obtain r w where hv: "hasValidToken E auth tok (outside st) = (r, w)"
          by (cases "hasValidToken E auth tok (outside st)")
        have k1: "keeps_ids docOf (outside st) w"
          using v [of "outside st" auth tok] hv by simp
        show ?thesis
        proof (cases r)
          case (Inl e)
          with None Inr parsed hv k1 show ?thesis
            by (simp add: getAuth_def getAuth_begin_def emit_def)
        next
          case isValid: (Inr b)
          show ?thesis
          proof (cases b)
            case True
            with None Inr parsed hv k1 isValid show ?thesis
              by (simp add: getAuth_def getAuth_begin_def emit_def)
          next
            case False
            obtain r' w' where nt: "getNewToken E auth w = (r', w')"
              by (cases "getNewToken E auth w")
            have k2: "keeps_ids docOf w w'"
              using n [of w auth] nt by simp
            show ?thesis
            proof (cases r')
              case (Inl e)
              with None Inr parsed hv isValid False nt keeps_ids_trans [OF k1 k2] show ?thesis
                by (simp add: getAuth_def getAuth_begin_def emit_def)
            next
              case triple: (Inr x)
              obtain h u pr where x: "x = (h, u, pr)" by (cases x)
              obtain r'' w'' where aw: "pr w' = (r'', w'')" by (cases "pr w'")
              have k3: "keeps_ids docOf w' w''"
                using p [of auth w h u pr w'] nt triple x aw by simp
              have "keeps_ids docOf (outside st) w''"
                using keeps_ids_trans [OF keeps_ids_trans [OF k1 k2] k3] .
              with None Inr parsed hv isValid False nt triple x aw show ?thesis
                by (cases r'') (simp_all add: getAuth_defs)
            qed
          qed
        qed
      qed
    qed
  qed
qed

text \<open>One push without conflict, under the contract.\<close>

lemma push_once:
  assumes contract: "remote_contract E docOf bodyOf"
    and no_conflict: "conflict_free E title st"
    and run: "createGoogleDoc E title content st = (Inr u, st')"
  shows "\<exists>d. docOf (outside st') title (googleDriveFolderId (settings st)) = Some d \<and>
    (\<forall>d0. docOf (outside st) title (googleDriveFolderId (settings st)) = Some d0 \<longrightarrow> d0 = d) \<and>
    clipboard (effects st') = Some (googleDocsUrl d) \<and>
    bodyOf (outside st') d = Some content \<and>
    googleDriveFolderId (settings st') = googleDriveFolderId (settings st)"
proof -
  let ?f = "googleDriveFolderId (settings st)"
  obtain auth st1 d w1 b w2 where
    auth: "getAuth E st = (Inr auth, st1)" and
    find: "findOrCreateDoc E title (googleDriveFolderId (settings st1)) auth (outside st1) = (Inr d, w1)" and
    check: "hasOpenComments E auth d w1 = (Inr b, w2)" and
    rest: "if b then st' = st1\<lparr>outside := w2, effects := effects st1 @
        [FindOrCreateDocCall title (googleDriveFolderId (settings st1)) auth,
         HasOpenCommentsCall auth d, Notice has_open_comments,
         ClipboardWrite (googleDocsUrl d)]\<rparr>
     else (\<exists>w3. updateHtml E d content auth True w2 = (Inr (), w3) \<and>
       st' = st1\<lparr>outside := w3, effects := effects st1 @
        [FindOrCreateDocCall title (googleDriveFolderId (settings st1)) auth,
         HasOpenCommentsCall auth d, UpdateHtmlCall d content auth True,
         ClipboardWrite (googleDocsUrl d), Notice document_updated]\<rparr>)"
    using createGoogleDoc_returns [OF run] by blast
  have "fst (hasOpenComments E auth d w1) \<noteq> Inr True"
    using no_conflict auth find unfolding conflict_free_def by blast
  then have "\<not> b"
    using check by auto
  with rest obtain w3 where
    update: "updateHtml E d content auth True w2 = (Inr (), w3)" and
    st': "st' = st1\<lparr>outside := w3, effects := effects st1 @
        [FindOrCreateDocCall title (googleDriveFolderId (settings st1)) auth,
         HasOpenCommentsCall auth d, UpdateHtmlCall d content auth True,
         ClipboardWrite (googleDocsUrl d), Notice document_updated]\<rparr>"
    by auto
  have folder: "googleDriveFolderId (settings st1) = ?f"
    using getAuth_frame [of E st] auth by simp
  have k0: "keeps_ids docOf (outside st) (outside st1)"
    using getAuth_keeps_ids [OF contract, of st] auth by simp
  have k1: "keeps_ids docOf (outside st1) w1"
    using contract find unfolding remote_contract_def by (metis snd_conv)
  have made: "docOf w1 title ?f = Some d"
    using contract find folder unfolding remote_contract_def by (metis fst_conv snd_conv)
  have k2: "keeps_ids docOf w1 w2"
    using contract check unfolding remote_contract_def by (metis snd_conv)
  have k3: "keeps_ids docOf w2 w3"
    using contract update unfolding remote_contract_def by (metis snd_conv)
  have body: "bodyOf w3 d = Some content"
    using contract update unfolding remote_contract_def by (metis fst_conv snd_conv)
  have after: "docOf w3 title ?f = Some d"
    using made k2 k3 by (simp add: keeps_ids_def)
  have before: "\<forall>d0. docOf (outside st) title ?f = Some d0 \<longrightarrow> d0 = d"
    using made k0 k1 by (auto simp: keeps_ids_def)
  have clip: "clipboard (effects st') = Some (googleDocsUrl d)"
    by (simp add: st' clipboard_def)
  show ?thesis
    using after before clip body folder by (auto simp: st')
qed

text \<open>The concrete library keeps the contract, for the obvious observations.\<close>

lemma sample_contract:
  "remote_contract sample_env (\<lambda>w t f. map_of (documents w) (t, f)) (\<lambda>w d. map_of (bodies w) d)"
  by (auto simp: remote_contract_def keeps_ids_def sample_env_def sample_tokenPromise_def
      split: option.splits)

text \<open>
  The earlier variant has the same guard: once an authorization succeeded inside a push,
  the slot holds the server for good, and a push in such a state stops at the notice.
\<close>

lemma createGoogleDoc_inline_pending:
  "authorizationServer st = Some h \<Longrightarrow>
   createGoogleDoc_inline E creds folderId title content st
     = (Inr (), st\<lparr>effects := effects st @ [Notice already_authenticating]\<rparr>)"
  by (simp add: createGoogleDoc_inline_def emit_def)

lemma createGoogleDoc_inline_guard_stays:
  "authorizationServer
     (snd (createGoogleDoc_inline sample_env ''app'' [] ''Notes'' ''# Hello''
            (sample_state ''{}'' None empty_store))) = Some 8080"
  by (simp add: createGoogleDoc_inline_def sample_defs getAuth_defs googleDocsUrl_def)

lemma createGoogleDoc_inline_empty_tokens:
  "createGoogleDoc_inline sample_env ''app'' [] ''Notes'' ''# Hello''
     (sample_state [] None empty_store)
   = (Inl SyntaxError, sample_state [] None empty_store)"
  by (simp add: createGoogleDoc_inline_def sample_defs getAuth_defs)

section \<open>The authorization guard\<close>

text \<open>
  C1, as the code has it. When the guard slot is not null, \<open>getAuth\<close> shows the
  notice ``Already authenticating, complete authorization.'' and returns, with no value
  (\<open>undefined\<close>) and without raising anything. Nothing else happens: the log
  gains that one notice, so no new-token request (no second listener), no browser launch,
  no clipboard write; the settings, the guard and the outside are as before, and the call
  does not wait for the flow in flight.
\<close>

theorem getAuth_pending_returns_undefined:
  "authorizationServer st = Some h \<Longrightarrow>
   getAuth E st = (Inr None, st\<lparr>effects := effects st @ [Notice already_authenticating]\<rparr>)"
  by (simp add: getAuth_def getAuth_begin_def emit_def)

text \<open>
  The state in which a first \<open>getAuth\<close> waits for its token promise is such a state:
  a second call there returns \<open>undefined\<close> and adds one notice to the log.
\<close>

theorem getAuth_pending_returns_undefined_witness:
  "authorizationServer (snd (getAuth_begin sample_env (sample_state ''{}'' None empty_store)))
     = Some 8080 \<and>
   fst (getAuth sample_env (snd (getAuth_begin sample_env (sample_state ''{}'' None empty_store))))
     = Inr None \<and>
   new_effects (snd (getAuth_begin sample_env (sample_state ''{}'' None empty_store)))
     (snd (getAuth sample_env (snd (getAuth_begin sample_env (sample_state ''{}'' None empty_store)))))
     = [Notice already_authenticating]"
proof -
  have guard:
    "authorizationServer (snd (getAuth_begin sample_env (sample_state ''{}'' None empty_store)))
       = Some 8080"
    by (simp add: sample_defs getAuth_defs)
  show ?thesis
    using guard getAuth_pending_returns_undefined [OF guard, of sample_env]
    by (simp add: new_effects_def)
qed

text \<open>
  C1 as the specification words it says that the call fails with an error. It does not:
  with a session pending, \<open>getAuth\<close> returns normally, with the value \<open>undefined\<close>.
\<close>

theorem getAuth_pending_does_not_throw:
  "fst (getAuth sample_env (sample_state sample_token (Some 8080) empty_store)) = Inr None \<and>
   \<not> isl (fst (getAuth sample_env (sample_state sample_token (Some 8080) empty_store)))"
  by (simp add: sample_defs getAuth_defs)

text \<open>
  C2 at a concrete run. The tokens text \<open>{}\<close> parses and is not valid, so \<open>getAuth\<close>
  runs the authorization, which succeeds: the client is returned, the new tokens are in
  the settings and were handed to \<open>saveData\<close>, and completion was notified. The guard,
  however, still holds the server, and the next \<open>getAuth\<close> returns \<open>undefined\<close> with
  the ``already authenticating'' notice.
\<close>

theorem getAuth_success_leaves_guard_set:
  "fst (getAuth sample_env (sample_state ''{}'' None empty_store)) = Inr (Some ''app'') \<and>
   tokens (settings (snd (getAuth sample_env (sample_state ''{}'' None empty_store))))
     = sample_token \<and>
   SaveData (settings (snd (getAuth sample_env (sample_state ''{}'' None empty_store))))
     \<in> set (effects (snd (getAuth sample_env (sample_state ''{}'' None empty_store)))) \<and>
   last (effects (snd (getAuth sample_env (sample_state ''{}'' None empty_store))))
     = Notice authentication_complete \<and>
   authorizationServer (snd (getAuth sample_env (sample_state ''{}'' None empty_store)))
     = Some 8080 \<and>
   fst (getAuth sample_env (snd (getAuth sample_env (sample_state ''{}'' None empty_store))))
     = Inr None"
  by (simp add: sample_defs getAuth_defs)

text \<open>
  C5 at the default tokens. With the tokens text empty, as \<open>DEFAULT_SETTINGS\<close> has it,
  and the credentials set, \<open>JSON.parse\<close> throws before the validity check is called:
  \<open>getAuth\<close> ends with \<open>SyntaxError\<close> and the state is untouched, so no new-token
  request was made.
\<close>

theorem getAuth_empty_tokens_throws:
  "tokens (settings (sample_state [] None empty_store)) = tokens DEFAULT_SETTINGS \<and>
   getClient sample_env (credentials (settings (sample_state [] None empty_store)))
     = Inr ''app'' \<and>
   getAuth sample_env (sample_state [] None empty_store)
     = (Inl SyntaxError, sample_state [] None empty_store)"
  by (simp add: sample_defs getAuth_defs)


section \<open>A valid cached token\<close>

text \<open>
  C4, with the guard taken into account. In every state where no authorization session
  is pending and the cached tokens parse and pass the validity check, \<open>getAuth\<close> returns
  the client at once. The only thing it does is the validity check itself: the settings
  and the guard are unchanged, and the log gains no browser launch, no clipboard write,
  no \<open>saveData\<close>, no notice and no new-token request.
\<close>

theorem getAuth_valid_token:
  assumes "authorizationServer st = None"
    and "getClient E (credentials (settings st)) = Inr auth"
    and "JSON_parse E (tokens (settings st)) = Inr tok"
    and "hasValidToken E auth tok (outside st) = (Inr True, w)"
  shows "getAuth E st =
      (Inr (Some auth), st\<lparr>outside := w, effects := effects st @ [HasValidTokenCall auth tok]\<rparr>) \<and>
    settings (snd (getAuth E st)) = settings st \<and>
    authorizationServer (snd (getAuth E st)) = None \<and>
    \<not> list_ex (\<lambda>e. is_launch e \<or> is_clipboard e \<or> is_save e \<or> is_notice e \<or> is_new_token_request e)
        (new_effects st (snd (getAuth E st)))"
  using assms by (simp add: getAuth_def getAuth_begin_def emit_def new_effects_def)

text \<open>A plugin holding the valid token, with no session pending.\<close>

theorem getAuth_valid_token_witness:
  "authorizationServer (sample_state sample_token None empty_store) = None \<and>
   getClient sample_env (credentials (settings (sample_state sample_token None empty_store)))
     = Inr ''app'' \<and>
   JSON_parse sample_env (tokens (settings (sample_state sample_token None empty_store)))
     = Inr sample_token \<and>
   hasValidToken sample_env ''app'' sample_token (outside (sample_state sample_token None empty_store))
     = (Inr True, empty_store) \<and>
   fst (getAuth sample_env (sample_state sample_token None empty_store)) = Inr (Some ''app'') \<and>
   settings (snd (getAuth sample_env (sample_state sample_token None empty_store)))
     = settings (sample_state sample_token None empty_store) \<and>
   \<not> list_ex (\<lambda>e. is_launch e \<or> is_clipboard e \<or> is_save e \<or> is_notice e \<or> is_new_token_request e)
       (new_effects (sample_state sample_token None empty_store)
          (snd (getAuth sample_env (sample_state sample_token None empty_store))))"
proof -
  have g: "authorizationServer (sample_state sample_token None empty_store) = None"
    by (simp add: sample_state_def)
  have c: "getClient sample_env (credentials (settings (sample_state sample_token None empty_store)))
      = Inr ''app''"
    by (simp add: sample_defs)
  have j: "JSON_parse sample_env (tokens (settings (sample_state sample_token None empty_store)))
      = Inr sample_token"
    by (simp add: sample_defs JSON_parse_def json_whitespace_def)
  have v: "hasValidToken sample_env ''app'' sample_token
      (outside (sample_state sample_token None empty_store)) = (Inr True, empty_store)"
    by (simp add: sample_env_def sample_state_def)
  note t = getAuth_valid_token [OF g c j v]
  show ?thesis
    using g c j v t [THEN conjunct1] t [THEN conjunct2]
    by (simp add: new_effects_def)
qed

text \<open>
  C4 as the specification words it covers every state with a valid cached token. With
  a session pending the valid token is not even looked at: \<open>getAuth\<close> returns
  \<open>undefined\<close>, not the client, and shows a notice.
\<close>

theorem getAuth_valid_token_but_pending:
  "hasValidToken sample_env ''app'' sample_token empty_store = (Inr True, empty_store) \<and>
   tokens (settings (sample_state sample_token (Some 8080) empty_store)) = sample_token \<and>
   fst (getAuth sample_env (sample_state sample_token (Some 8080) empty_store)) = Inr None \<and>
   effects (snd (getAuth sample_env (sample_state sample_token (Some 8080) empty_store)))
     = [Notice already_authenticating]"
  by (simp add: sample_defs getAuth_defs)

section \<open>The push\<close>







text \<open>
  C8. Assume the contract of the remote store (\<open>remote_contract\<close>: a created document
  keeps its id, \<open>findOrCreateDoc\<close> answers with the id of the document of that title
  and folder, \<open>updateHtml\<close> with \<open>wipe\<close> leaves the content as the body) and two
  pushes of the same title and content, one after the other, each of them without
  conflict and each returning normally. Then there is one document id such that the
  clipboard holds its link after the first push and after the second, and the body of
  that document is the pushed content after the first push and after the second.
\<close>

theorem push_twice:
  assumes contract: "remote_contract E docOf bodyOf"
    and first: "createGoogleDoc E title content st = (Inr (), st1)"
    and second: "createGoogleDoc E title content st1 = (Inr (), st2)"
    and no_conflict1: "conflict_free E title st"
    and no_conflict2: "conflict_free E title st1"
  shows "\<exists>d. clipboard (effects st1) = Some (googleDocsUrl d) \<and>
              clipboard (effects st2) = Some (googleDocsUrl d) \<and>
              bodyOf (outside st1) d = Some content \<and>
              bodyOf (outside st2) d = Some content"
proof -
  obtain d where d:
    "docOf (outside st1) title (googleDriveFolderId (settings st)) = Some d"
    "clipboard (effects st1) = Some (googleDocsUrl d)"
    "bodyOf (outside st1) d = Some content"
    "googleDriveFolderId (settings st1) = googleDriveFolderId (settings st)"
    using push_once [OF contract no_conflict1 first] by blast
  obtain d' where d':
    "\<forall>d0. docOf (outside st1) title (googleDriveFolderId (settings st1)) = Some d0 \<longrightarrow> d0 = d'"
    "clipboard (effects st2) = Some (googleDocsUrl d')"
    "bodyOf (outside st2) d' = Some content"
    using push_once [OF contract no_conflict2 second] by blast
  have "d' = d"
    using d(1,4) d'(1) by simp
  with d d' show ?thesis by blast
qed

text \<open>
  Two pushes of ``# Hello'' to ``Notes'' with a valid cached token, starting from an
  empty store: the first creates the document, the second finds it again.
\<close>

theorem push_twice_witness:
  "remote_contract sample_env (\<lambda>w t f. map_of (documents w) (t, f)) (\<lambda>w d. map_of (bodies w) d) \<and>
   fst (createGoogleDoc sample_env ''Notes'' ''# Hello'' (sample_state sample_token None empty_store))
     = Inr () \<and>
   fst (createGoogleDoc sample_env ''Notes'' ''# Hello''
          (snd (createGoogleDoc sample_env ''Notes'' ''# Hello''
                  (sample_state sample_token None empty_store))))
     = Inr () \<and>
   conflict_free sample_env ''Notes'' (sample_state sample_token None empty_store) \<and>
   conflict_free sample_env ''Notes''
     (snd (createGoogleDoc sample_env ''Notes'' ''# Hello''
             (sample_state sample_token None empty_store))) \<and>
   (\<exists>d. clipboard (effects (snd (createGoogleDoc sample_env ''Notes'' ''# Hello''
                                  (sample_state sample_token None empty_store))))
           = Some (googleDocsUrl d) \<and>
         clipboard (effects (snd (createGoogleDoc sample_env ''Notes'' ''# Hello''
                                  (snd (createGoogleDoc sample_env ''Notes'' ''# Hello''
                                          (sample_state sample_token None empty_store))))))
           = Some (googleDocsUrl d) \<and>
         map_of (bodies (outside (snd (createGoogleDoc sample_env ''Notes'' ''# Hello''
                                         (sample_state sample_token None empty_store))))) d
           = Some ''# Hello'' \<and>
         map_of (bodies (outside (snd (createGoogleDoc sample_env ''Notes'' ''# Hello''
                                         (snd (createGoogleDoc sample_env ''Notes'' ''# Hello''
                                                 (sample_state sample_token None empty_store)))))))
           d
           = Some ''# Hello'')"
proof -
  let ?st = "sample_state sample_token None empty_store"
  obtain st1 where first: "createGoogleDoc sample_env ''Notes'' ''# Hello'' ?st = (Inr (), st1)"
    and st1: "st1 = \<lparr>settings = DEFAULT_SETTINGS\<lparr>credentials := ''app'', tokens := sample_token\<rparr>,
        authorizationServer = None,
        outside = \<lparr>documents = [((''Notes'', []), ''doc-Notes'')],
                   bodies = [(''doc-Notes'', ''# Hello'')], commented = []\<rparr>,
        effects = [HasValidTokenCall ''app'' sample_token,
                   FindOrCreateDocCall ''Notes'' [] (Some ''app''),
                   HasOpenCommentsCall (Some ''app'') ''doc-Notes'',
                   UpdateHtmlCall ''doc-Notes'' ''# Hello'' (Some ''app'') True,
                   ClipboardWrite (googleDocsUrl ''doc-Notes''),
                   Notice document_updated]\<rparr>"
    by (simp add: createGoogleDoc_def sample_defs getAuth_defs)
  obtain st2 where second: "createGoogleDoc sample_env ''Notes'' ''# Hello'' st1 = (Inr (), st2)"
    by (simp add: st1 createGoogleDoc_def sample_defs getAuth_defs)
  have c1: "conflict_free sample_env ''Notes'' ?st"
    by (auto simp: conflict_free_def sample_defs getAuth_defs)
  have c2: "conflict_free sample_env ''Notes'' st1"
    by (auto simp: st1 conflict_free_def sample_defs getAuth_defs)
  show ?thesis
    using sample_contract first second c1 c2
      push_twice [OF sample_contract first second c1 c2]
    by simp
qed

section \<open>Clipboard writes and notices\<close>

text \<open>
  C6 as the specification words it asks one clipboard write of the document's link from
  \<open>open\<close> as well. \<open>openGoogleDoc\<close> never writes to the clipboard: with a valid cached
  token it returns normally, having launched the link, and the log has no clipboard write.
\<close>

theorem open_writes_no_clipboard:
  "fst (openGoogleDoc sample_env ''Notes'' ''# Hello'' (sample_state sample_token None empty_store))
     = Inr () \<and>
   filter is_clipboard
     (effects (snd (openGoogleDoc sample_env ''Notes'' ''# Hello''
                      (sample_state sample_token None empty_store))))
     = [] \<and>
   filter is_launch
     (effects (snd (openGoogleDoc sample_env ''Notes'' ''# Hello''
                      (sample_state sample_token None empty_store))))
     = [Opn ''https://docs.google.com/document/d/doc-Notes'']"
  by (simp add: openGoogleDoc_def sample_defs getAuth_defs googleDocsUrl_def)

text \<open>
  C6, as the code has it, counted from the moment \<open>getAuth\<close> has returned a value (what
  \<open>getAuth\<close> itself writes and notifies comes before and is not counted here). A push
  that returns normally, on the conflict path or on the success path, has made exactly
  one clipboard write, the link of the resolved document, and exactly one notice; a push
  that ends in an exception has made no clipboard write and no notice. An open makes no
  clipboard write on any path and exactly one notice, ``Opening Google Doc...''; when it
  returns normally it has made exactly one browser launch, of the link of the resolved
  document.
\<close>

theorem after_getAuth_clipboard_and_notices:
  assumes "getAuth E st = (Inr auth, st1)"
  shows "(case createGoogleDoc E title content st of
        (Inr u, st') \<Rightarrow>
          (\<exists>d w. findOrCreateDoc E title (googleDriveFolderId (settings st1)) auth (outside st1)
                    = (Inr d, w) \<and>
                  filter is_clipboard (new_effects st1 st') = [ClipboardWrite (googleDocsUrl d)]) \<and>
          length (filter is_notice (new_effects st1 st')) = 1
      | (Inl e, st') \<Rightarrow>
          filter is_clipboard (new_effects st1 st') = [] \<and>
          filter is_notice (new_effects st1 st') = []) \<and>
    (case openGoogleDoc E title content st of
        (r, st') \<Rightarrow>
          filter is_clipboard (new_effects st1 st') = [] \<and>
          filter is_notice (new_effects st1 st') = [Notice opening_google_doc] \<and>
          (r = Inr () \<longrightarrow>
             (\<exists>d w. findOrCreateDoc E title (googleDriveFolderId (settings st1)) auth (outside st1)
                       = (Inr d, w) \<and>
                     filter is_launch (new_effects st1 st') = [Opn (googleDocsUrl d)])))"
  using assms
  by (auto simp: openGoogleDoc_def createGoogleDoc_def emit_def Let_def new_effects_def
      split: splits)

text \<open>
  A push and an open of ``Notes'' with a valid cached token on an empty store: both
  return normally.
\<close>

theorem after_getAuth_clipboard_and_notices_witness:
  "getAuth sample_env (sample_state sample_token None empty_store)
     = (Inr (Some ''app''),
        (sample_state sample_token None empty_store)
          \<lparr>effects := [HasValidTokenCall ''app'' sample_token]\<rparr>) \<and>
   fst (createGoogleDoc sample_env ''Notes'' ''# Hello'' (sample_state sample_token None empty_store))
     = Inr () \<and>
   fst (openGoogleDoc sample_env ''Notes'' ''# Hello'' (sample_state sample_token None empty_store))
     = Inr () \<and>
   filter is_clipboard
     (new_effects
        ((sample_state sample_token None empty_store)
           \<lparr>effects := [HasValidTokenCall ''app'' sample_token]\<rparr>)
        (snd (createGoogleDoc sample_env ''Notes'' ''# Hello''
                (sample_state sample_token None empty_store))))
     = [ClipboardWrite (googleDocsUrl ''doc-Notes'')] \<and>
   length (filter is_notice
     (new_effects
        ((sample_state sample_token None empty_store)
           \<lparr>effects := [HasValidTokenCall ''app'' sample_token]\<rparr>)
        (snd (createGoogleDoc sample_env ''Notes'' ''# Hello''
                (sample_state sample_token None empty_store)))))
     = 1 \<and>
   filter is_clipboard
     (new_effects
        ((sample_state sample_token None empty_store)
           \<lparr>effects := [HasValidTokenCall ''app'' sample_token]\<rparr>)
        (snd (openGoogleDoc sample_env ''Notes'' ''# Hello''
                (sample_state sample_token None empty_store))))
     = [] \<and>
   filter is_launch
     (new_effects
        ((sample_state sample_token None empty_store)
           \<lparr>effects := [HasValidTokenCall ''app'' sample_token]\<rparr>)
        (snd (openGoogleDoc sample_env ''Notes'' ''# Hello''
                (sample_state sample_token None empty_store))))
     = [Opn (googleDocsUrl ''doc-Notes'')]"
proof -
  let ?st = "sample_state sample_token None empty_store"
  let ?st1 = "?st\<lparr>effects := [HasValidTokenCall ''app'' sample_token]\<rparr>"
  have a: "getAuth sample_env ?st = (Inr (Some ''app''), ?st1)"
    by (simp add: sample_defs getAuth_defs)
  obtain sp where p: "createGoogleDoc sample_env ''Notes'' ''# Hello'' ?st = (Inr (), sp)"
    by (simp add: createGoogleDoc_def sample_defs getAuth_defs)
  obtain so where o: "openGoogleDoc sample_env ''Notes'' ''# Hello'' ?st = (Inr (), so)"
    by (simp add: openGoogleDoc_def sample_defs getAuth_defs)
  have f: "findOrCreateDoc sample_env ''Notes'' (googleDriveFolderId (settings ?st)) (Some ''app'')
      (outside ?st)
      = (Inr ''doc-Notes'',
         \<lparr>documents = [((''Notes'', []), ''doc-Notes'')], bodies = [(''doc-Notes'', [])],
          commented = []\<rparr>)"
    by (simp add: sample_defs)
  note t = after_getAuth_clipboard_and_notices [OF a, of "''Notes''" "''# Hello''"]
  show ?thesis
    using a t [THEN conjunct1] t [THEN conjunct2]
    by (auto simp: p o f)
qed

section \<open>The open\<close>

text \<open>
  C7. In every state and for every title and content, \<open>openGoogleDoc\<close> calls neither
  \<open>updateHtml\<close> nor \<open>hasOpenComments\<close>, \<open>getAuth\<close> included. When it returns normally,
  what it did after \<open>getAuth\<close> is: the notice ``Opening Google Doc...'', one
  \<open>findOrCreateDoc\<close> for the title in the folder of the settings, and the launch of the
  link of the document that call answered.
\<close>

theorem open_never_updates:
  "\<not> list_ex is_update (new_effects st (snd (openGoogleDoc E title content st))) \<and>
   \<not> list_ex is_conflict_check (new_effects st (snd (openGoogleDoc E title content st))) \<and>
   (fst (openGoogleDoc E title content st) = Inr () \<longrightarrow>
      (\<exists>auth st1 d w.
         getAuth E st = (Inr auth, st1) \<and>
         findOrCreateDoc E title (googleDriveFolderId (settings st1)) auth (outside st1) = (Inr d, w) \<and>
         new_effects st1 (snd (openGoogleDoc E title content st)) =
           [Notice opening_google_doc,
            FindOrCreateDocCall title (googleDriveFolderId (settings st1)) auth,
            Opn (googleDocsUrl d)]))"
proof -
  obtain evs0 where a: "effects (snd (getAuth E st)) = effects st @ evs0" "list_all is_auth_effect evs0"
    using getAuth_log [of E st] by blast
  obtain evs where o:
    "effects (snd (openGoogleDoc E title content st)) = effects (snd (getAuth E st)) @ evs"
    "\<not> list_ex is_update evs" "\<not> list_ex is_conflict_check evs"
    using openGoogleDoc_after_getAuth [of E title content st] by blast
  have none: "\<not> list_ex is_update (new_effects st (snd (openGoogleDoc E title content st))) \<and>
     \<not> list_ex is_conflict_check (new_effects st (snd (openGoogleDoc E title content st)))"
    using a o auth_effect_kinds [OF a(2)] by (simp add: new_effects_def)
  have "fst (openGoogleDoc E title content st) = Inr () \<longrightarrow>
      (\<exists>auth st1 d w.
         getAuth E st = (Inr auth, st1) \<and>
         findOrCreateDoc E title (googleDriveFolderId (settings st1)) auth (outside st1) = (Inr d, w) \<and>
         new_effects st1 (snd (openGoogleDoc E title content st)) =
           [Notice opening_google_doc,
            FindOrCreateDocCall title (googleDriveFolderId (settings st1)) auth,
            Opn (googleDocsUrl d)])"
    by (auto simp: openGoogleDoc_def emit_def Let_def new_effects_def split: splits)
  with none show ?thesis by blast
qed

text \<open>
  An open of ``Notes'' where the document has open comments: it returns normally, with
  no conflict check and no write.
\<close>

theorem open_never_updates_witness:
  "fst (openGoogleDoc sample_env ''Notes'' ''v2'' (sample_state sample_token None commented_store))
     = Inr () \<and>
   \<not> list_ex is_update
       (new_effects (sample_state sample_token None commented_store)
          (snd (openGoogleDoc sample_env ''Notes'' ''v2''
                  (sample_state sample_token None commented_store)))) \<and>
   \<not> list_ex is_conflict_check
       (new_effects (sample_state sample_token None commented_store)
          (snd (openGoogleDoc sample_env ''Notes'' ''v2''
                  (sample_state sample_token None commented_store)))) \<and>
   (\<exists>auth st1 d w.
      getAuth sample_env (sample_state sample_token None commented_store) = (Inr auth, st1) \<and>
      findOrCreateDoc sample_env ''Notes'' (googleDriveFolderId (settings st1)) auth (outside st1)
        = (Inr d, w) \<and>
      new_effects st1 (snd (openGoogleDoc sample_env ''Notes'' ''v2''
                              (sample_state sample_token None commented_store))) =
        [Notice opening_google_doc,
         FindOrCreateDocCall ''Notes'' (googleDriveFolderId (settings st1)) auth,
         Opn (googleDocsUrl d)])"
proof -
  have r: "fst (openGoogleDoc sample_env ''Notes'' ''v2''
                  (sample_state sample_token None commented_store)) = Inr ()"
    by (simp add: openGoogleDoc_def sample_defs getAuth_defs)
  show ?thesis
    using r open_never_updates
      [of "sample_state sample_token None commented_store" sample_env "''Notes''" "''v2''"]
    by blast
qed

section \<open>Callers of a guarded getAuth\<close>

text \<open>
  C9. With a session pending, \<open>getAuth\<close> returns \<open>undefined\<close> (a normal return, no
  exception), and neither caller stops there. \<open>openGoogleDoc\<close> goes on to its notice and
  calls \<open>findOrCreateDoc\<close> with the undefined credential. \<open>createGoogleDoc\<close> calls
  \<open>findOrCreateDoc\<close> with the undefined credential; if that answers a document, it
  calls \<open>hasOpenComments\<close> with the undefined credential; and if that answers false, it
  calls \<open>updateHtml\<close> with the undefined credential.
\<close>

theorem pending_callers_proceed:
  assumes "authorizationServer st = Some h"
  shows "fst (getAuth E st) = Inr None \<and>
    prefix (effects st @
        [Notice already_authenticating, Notice opening_google_doc,
         FindOrCreateDocCall title (googleDriveFolderId (settings st)) None])
      (effects (snd (openGoogleDoc E title content st))) \<and>
    prefix (effects st @
        [Notice already_authenticating,
         FindOrCreateDocCall title (googleDriveFolderId (settings st)) None])
      (effects (snd (createGoogleDoc E title content st))) \<and>
    (\<forall>d w. findOrCreateDoc E title (googleDriveFolderId (settings st)) None (outside st) = (Inr d, w) \<longrightarrow>
       prefix (effects st @
           [Notice already_authenticating,
            FindOrCreateDocCall title (googleDriveFolderId (settings st)) None,
            HasOpenCommentsCall None d])
         (effects (snd (createGoogleDoc E title content st))) \<and>
       (\<forall>w'. hasOpenComments E None d w = (Inr False, w') \<longrightarrow>
          prefix (effects st @
              [Notice already_authenticating,
               FindOrCreateDocCall title (googleDriveFolderId (settings st)) None,
               HasOpenCommentsCall None d, UpdateHtmlCall d content None True])
            (effects (snd (createGoogleDoc E title content st)))))"
proof -
  have a: "getAuth E st = (Inr None, st\<lparr>effects := effects st @ [Notice already_authenticating]\<rparr>)"
    using assms by (simp add: getAuth_def getAuth_begin_def emit_def)
  show ?thesis
    by (auto simp: a openGoogleDoc_def createGoogleDoc_def emit_def Let_def prefix_def
        split: splits)
qed

text \<open>A push of ``# Hello'' to ``Notes'' while a session is pending, on an empty store.\<close>

theorem pending_callers_proceed_witness:
  "authorizationServer (sample_state ''{}'' (Some 8080) empty_store) = Some 8080 \<and>
   findOrCreateDoc sample_env ''Notes''
       (googleDriveFolderId (settings (sample_state ''{}'' (Some 8080) empty_store))) None
       (outside (sample_state ''{}'' (Some 8080) empty_store))
     = (Inr ''doc-Notes'',
        \<lparr>documents = [((''Notes'', []), ''doc-Notes'')], bodies = [(''doc-Notes'', [])],
         commented = []\<rparr>) \<and>
   hasOpenComments sample_env None ''doc-Notes''
       \<lparr>documents = [((''Notes'', []), ''doc-Notes'')], bodies = [(''doc-Notes'', [])],
        commented = []\<rparr>
     = (Inr False,
        \<lparr>documents = [((''Notes'', []), ''doc-Notes'')], bodies = [(''doc-Notes'', [])],
         commented = []\<rparr>) \<and>
   fst (getAuth sample_env (sample_state ''{}'' (Some 8080) empty_store)) = Inr None \<and>
   prefix
     [Notice already_authenticating, Notice opening_google_doc,
      FindOrCreateDocCall ''Notes'' [] None]
     (effects (snd (openGoogleDoc sample_env ''Notes'' ''# Hello''
                      (sample_state ''{}'' (Some 8080) empty_store)))) \<and>
   prefix
     [Notice already_authenticating, FindOrCreateDocCall ''Notes'' [] None,
      HasOpenCommentsCall None ''doc-Notes'',
      UpdateHtmlCall ''doc-Notes'' ''# Hello'' None True]
     (effects (snd (createGoogleDoc sample_env ''Notes'' ''# Hello''
                      (sample_state ''{}'' (Some 8080) empty_store))))"
proof -
  let ?st = "sample_state ''{}'' (Some 8080) empty_store"
  let ?w = "\<lparr>documents = [((''Notes'', []), ''doc-Notes'')], bodies = [(''doc-Notes'', [])],
             commented = []\<rparr>"
  have g: "authorizationServer ?st = Some 8080"
    by (simp add: sample_state_def)
  have f: "findOrCreateDoc sample_env ''Notes'' (googleDriveFolderId (settings ?st)) None (outside ?st)
      = (Inr ''doc-Notes'', ?w)"
    by (simp add: sample_defs)
  have h: "hasOpenComments sample_env None ''doc-Notes'' ?w = (Inr False, ?w)"
    by (simp add: sample_defs)
  have folder: "googleDriveFolderId (settings ?st) = []" and log: "effects ?st = []"
    by (simp_all add: sample_state_def DEFAULT_SETTINGS_def)
  note t = pending_callers_proceed [OF g, of sample_env "''Notes''" "''# Hello''"]
  have "prefix
     ([] @ [Notice already_authenticating, FindOrCreateDocCall ''Notes'' [] None,
      HasOpenCommentsCall None ''doc-Notes'',
      UpdateHtmlCall ''doc-Notes'' ''# Hello'' None True])
     (effects (snd (createGoogleDoc sample_env ''Notes'' ''# Hello'' ?st)))"
    using t f h unfolding folder log by blast
  moreover have "fst (getAuth sample_env ?st) = Inr None"
    using t by blast
  moreover have "prefix
     ([] @ [Notice already_authenticating, Notice opening_google_doc,
      FindOrCreateDocCall ''Notes'' [] None])
     (effects (snd (openGoogleDoc sample_env ''Notes'' ''# Hello'' ?st)))"
    using t unfolding folder log by blast
  ultimately show ?thesis
    using g f h by simp
qed

section \<open>The settings record\<close>

text \<open>
  C10. None of \<open>getAuth\<close>, \<open>openGoogleDoc\<close> and \<open>createGoogleDoc\<close> changes the folder id
  or the credentials of the settings, in any state. Each of them either leaves the whole
  settings record as it was and hands nothing to \<open>saveData\<close>, or went through an
  authorization whose token promise resolved: then the tokens field, and only it, was
  replaced by the serialized new tokens, and the record was handed to \<open>saveData\<close> once
  (\<open>settings_frame\<close>).
\<close>

theorem operations_write_only_tokens:
  "settings_frame E st (snd (getAuth E st)) \<and>
   settings_frame E st (snd (openGoogleDoc E title content st)) \<and>
   settings_frame E st (snd (createGoogleDoc E title content st))"
proof -
  have log: "\<exists>evs0. effects (snd (getAuth E st)) = effects st @ evs0"
    using getAuth_log [of E st] by blast
  obtain evs where o:
    "settings (snd (openGoogleDoc E title content st)) = settings (snd (getAuth E st))"
    "effects (snd (openGoogleDoc E title content st)) = effects (snd (getAuth E st)) @ evs"
    "\<not> list_ex is_save evs"
    using openGoogleDoc_after_getAuth [of E title content st] by blast
  obtain evs' where c:
    "settings (snd (createGoogleDoc E title content st)) = settings (snd (getAuth E st))"
    "effects (snd (createGoogleDoc E title content st)) = effects (snd (getAuth E st)) @ evs'"
    "\<not> list_ex is_save evs'"
    using createGoogleDoc_after_getAuth [of E title content st] by blast
  show ?thesis
    using getAuth_settings_frame [of E st]
      settings_frame_extend [OF getAuth_settings_frame o log]
      settings_frame_extend [OF getAuth_settings_frame c log]
    by simp
qed

text \<open>
  A push that goes through an authorization: the settings change, so the second case of
  \<open>settings_frame\<close> is the one that holds. The folder id and the credentials are the old
  ones, and the one record handed to \<open>saveData\<close> is the new settings record.
\<close>

theorem operations_write_only_tokens_witness:
  "settings (snd (createGoogleDoc sample_env ''Notes'' ''# Hello''
                    (sample_state ''{}'' None empty_store)))
     \<noteq> settings (sample_state ''{}'' None empty_store) \<and>
   googleDriveFolderId (settings (snd (createGoogleDoc sample_env ''Notes'' ''# Hello''
                                         (sample_state ''{}'' None empty_store))))
     = googleDriveFolderId (settings (sample_state ''{}'' None empty_store)) \<and>
   credentials (settings (snd (createGoogleDoc sample_env ''Notes'' ''# Hello''
                                 (sample_state ''{}'' None empty_store))))
     = credentials (settings (sample_state ''{}'' None empty_store)) \<and>
   filter is_save
     (new_effects (sample_state ''{}'' None empty_store)
        (snd (createGoogleDoc sample_env ''Notes'' ''# Hello'' (sample_state ''{}'' None empty_store))))
     = [SaveData (settings (snd (createGoogleDoc sample_env ''Notes'' ''# Hello''
                                   (sample_state ''{}'' None empty_store))))]"
proof -
  let ?st = "sample_state ''{}'' None empty_store"
  let ?st' = "snd (createGoogleDoc sample_env ''Notes'' ''# Hello'' ?st)"
  have changed: "settings ?st' \<noteq> settings ?st"
    by (simp add: createGoogleDoc_def sample_defs getAuth_defs)
  have "settings_frame sample_env ?st ?st'"
    using operations_write_only_tokens [of sample_env ?st "''Notes''" "''# Hello''"] by blast
  then show ?thesis
    using changed unfolding settings_frame_def by blast
qed

end
